theory Spec2Isabelle
  imports Complex_Main "HOL-Library.Sublist" "HOL-Library.Word"
begin

section \<open>Characters and strings of the host language\<close>

text \<open>
  The program is Python 3 and its texts are \<open>str\<close> values, sequences of code points. A
  code point is a natural number here and a \<open>str\<close> a list of them, so that \<open>length\<close>
  counts what \<open>len\<close> counts. The literals of the source are ASCII and are written as
  Isabelle strings; \<open>lit\<close> gives the \<open>str\<close> of a literal.
\<close>

type_synonym str = "nat list"

definition ord :: "char \<Rightarrow> nat" where
  "ord c = of_char c"

definition lit :: "string \<Rightarrow> str" where
  "lit s = map ord s"

definition in_range :: "char \<Rightarrow> char \<Rightarrow> nat \<Rightarrow> bool" where
  "in_range lo hi c = (ord lo \<le> c \<and> c \<le> ord hi)"

text \<open>
  The character classes and the case mapping come from the Unicode tables of the
  interpreter. Below 256 (the Latin-1 range) they are written out as CPython has them;
  from 256 on they are a parameter, the record \<open>uc\<close>. \<open>wide_lower uc s i\<close> is what
  \<open>str.lower()\<close> puts for the code point at index \<open>i\<close> of \<open>s\<close>: one code point or several,
  and for some code points it depends on the neighbours.
\<close>

record unicode_db =
  wide_isspace :: "nat \<Rightarrow> bool"
  wide_isalnum :: "nat \<Rightarrow> bool"
  wide_isdecimal :: "nat \<Rightarrow> bool"
  wide_lower :: "str \<Rightarrow> nat \<Rightarrow> str"

text \<open>Whitespace of \<open>str.split()\<close>, \<open>str.strip()\<close> and of \<open>\s\<close> in a \<open>str\<close> pattern.\<close>

definition isspace :: "unicode_db \<Rightarrow> nat \<Rightarrow> bool" where
  "isspace uc c =
    (if c < 256 then (9 \<le> c \<and> c \<le> 13) \<or> (28 \<le> c \<and> c \<le> 32) \<or> c = 133 \<or> c = 160
     else wide_isspace uc c)"

text \<open>\<open>\d\<close> in a \<open>str\<close> pattern: the decimal digits, which below 256 are \<open>0\<close> to \<open>9\<close>.\<close>

definition isdigit :: "unicode_db \<Rightarrow> nat \<Rightarrow> bool" where
  "isdigit uc c = (if c < 256 then in_range CHR ''0'' CHR ''9'' c else wide_isdecimal uc c)"

text \<open>\<open>str.isalnum\<close>: letters, digits and the numeric characters.\<close>

definition isalnum :: "unicode_db \<Rightarrow> nat \<Rightarrow> bool" where
  "isalnum uc c =
    (if c < 256 then
       in_range CHR ''0'' CHR ''9'' c \<or> in_range CHR ''A'' CHR ''Z'' c \<or> in_range CHR ''a'' CHR ''z'' c \<or>
       c = 170 \<or> c = 178 \<or> c = 179 \<or> c = 181 \<or> c = 185 \<or> c = 186 \<or>
       (188 \<le> c \<and> c \<le> 190) \<or> (192 \<le> c \<and> c \<le> 214) \<or> (216 \<le> c \<and> c \<le> 246) \<or> 248 \<le> c
     else wide_isalnum uc c)"

text \<open>\<open>\w\<close>, which decides \<open>\b\<close>: an alphanumeric character or the underscore.\<close>

definition isword :: "unicode_db \<Rightarrow> nat \<Rightarrow> bool" where
  "isword uc c = (isalnum uc c \<or> c = ord CHR ''_'')"

text \<open>
  \<open>str.lower()\<close>: every code point is replaced by its lower-case mapping. Below 256 the
  mapping is one code point.
\<close>

definition lower_at :: "unicode_db \<Rightarrow> str \<Rightarrow> nat \<Rightarrow> str" where
  "lower_at uc s i =
    (let c = s ! i in
     if c < 256 then
       [if in_range CHR ''A'' CHR ''Z'' c \<or> (192 \<le> c \<and> c \<le> 214) \<or> (216 \<le> c \<and> c \<le> 222)
        then c + 32 else c]
     else wide_lower uc s i)"

definition lower :: "unicode_db \<Rightarrow> str \<Rightarrow> str" where
  "lower uc s = concat (map (lower_at uc s) [0 ..< length s])"

text \<open>
  \<open>str.title()\<close>: a letter that follows a letter is lowered, any other letter is raised. The
  program applies it to the entries of its three fixed lists only, which are ASCII literals;
  the definition is \<open>str.title\<close> on ASCII literals.
\<close>

definition isalpha_ascii :: "char \<Rightarrow> bool" where
  "isalpha_ascii c = (in_range CHR ''A'' CHR ''Z'' (ord c) \<or> in_range CHR ''a'' CHR ''z'' (ord c))"

definition upper_ascii :: "char \<Rightarrow> char" where
  "upper_ascii c = (if in_range CHR ''a'' CHR ''z'' (ord c) then char_of (ord c - 32) else c)"

definition lower_ascii :: "char \<Rightarrow> char" where
  "lower_ascii c = (if in_range CHR ''A'' CHR ''Z'' (ord c) then char_of (ord c + 32) else c)"

primrec title_from :: "bool \<Rightarrow> string \<Rightarrow> string" where
  "title_from previous_is_cased [] = []"
| "title_from previous_is_cased (c # cs) =
     (if previous_is_cased then lower_ascii c else upper_ascii c) # title_from (isalpha_ascii c) cs"

definition title :: "string \<Rightarrow> string" where
  "title s = title_from False s"

text \<open>\<open>str.strip()\<close>: whitespace removed at both ends.\<close>

definition strip :: "unicode_db \<Rightarrow> str \<Rightarrow> str" where
  "strip uc s = rev (dropWhile (isspace uc) (rev (dropWhile (isspace uc) s)))"

text \<open>
  \<open>str.split()\<close> with no argument: the maximal runs of non-whitespace characters, in
  order. \<open>cur\<close> is the token being read.
\<close>

primrec split_from :: "unicode_db \<Rightarrow> str \<Rightarrow> str \<Rightarrow> str list" where
  "split_from uc cur [] = (if cur = [] then [] else [cur])"
| "split_from uc cur (c # cs) =
     (if isspace uc c then (if cur = [] then split_from uc [] cs else cur # split_from uc [] cs)
      else split_from uc (cur @ [c]) cs)"

definition str_split :: "unicode_db \<Rightarrow> str \<Rightarrow> str list" where
  "str_split uc s = split_from uc [] s"

text \<open>
  \<open>re.split\<close> on a pattern \<open>[...]+\<close>: the text between the maximal runs of characters of
  the class \<open>p\<close>, empty pieces at the ends included. \<open>in_sep\<close> says that the previous
  character belonged to a run.
\<close>

primrec re_split_from :: "(nat \<Rightarrow> bool) \<Rightarrow> str \<Rightarrow> bool \<Rightarrow> str \<Rightarrow> str list" where
  "re_split_from p cur in_sep [] = [cur]"
| "re_split_from p cur in_sep (c # cs) =
     (if p c then (if in_sep then re_split_from p cur True cs
                   else cur # re_split_from p [] True cs)
      else re_split_from p (cur @ [c]) False cs)"

definition re_split :: "(nat \<Rightarrow> bool) \<Rightarrow> str \<Rightarrow> str list" where
  "re_split p s = re_split_from p [] False s"

text \<open>\<open>sep.join(xs)\<close>, for the ASCII pieces the program joins.\<close>

fun join :: "string \<Rightarrow> string list \<Rightarrow> string" where
  "join sep [] = []"
| "join sep [x] = x"
| "join sep (x # y # ys) = x @ sep @ join sep (y # ys)"

text \<open>\<open>str(n)\<close> and \<open>'{}'.format(n)\<close> for a non-negative integer: its decimal digits.\<close>

function str_nat :: "nat \<Rightarrow> string" where
  "str_nat n = (if n < 10 then [char_of (48 + n)] else str_nat (n div 10) @ [char_of (48 + n mod 10)])"
  by pat_completeness auto
termination
  by (relation "measure id") auto

declare str_nat.simps [simp del]

section \<open>Regular expressions, as far as the program uses them\<close>

text \<open>
  The program only asks whether \<open>re.search\<close> finds a match, and its patterns are built from
  literal text, character classes, bounded and unbounded repetition of a class, the word
  boundary \<open>\b\<close>, the optional group and concatenation. For such patterns the backtracking
  matcher finds a match exactly when one exists, so the model computes all the positions at
  which a match that starts at \<open>i\<close> can end.
\<close>

datatype regex =
    Lit str
  | Cls "nat \<Rightarrow> bool"
  | Rep "nat \<Rightarrow> bool" nat "nat option"
  | WordB
  | Opt regex
  | Seq regex regex

definition word_before :: "unicode_db \<Rightarrow> str \<Rightarrow> nat \<Rightarrow> bool" where
  "word_before uc s i = (0 < i \<and> i \<le> length s \<and> isword uc (s ! (i - 1)))"

definition word_after :: "unicode_db \<Rightarrow> str \<Rightarrow> nat \<Rightarrow> bool" where
  "word_after uc s i = (i < length s \<and> isword uc (s ! i))"

definition word_boundary :: "unicode_db \<Rightarrow> str \<Rightarrow> nat \<Rightarrow> bool" where
  "word_boundary uc s i = (word_before uc s i \<noteq> word_after uc s i)"

definition run :: "(nat \<Rightarrow> bool) \<Rightarrow> str \<Rightarrow> nat \<Rightarrow> nat" where
  "run p s i = length (takeWhile p (drop i s))"

definition below_max :: "nat option \<Rightarrow> nat \<Rightarrow> bool" where
  "below_max hi k = (case hi of None \<Rightarrow> True | Some h \<Rightarrow> k \<le> h)"

fun ends :: "unicode_db \<Rightarrow> regex \<Rightarrow> str \<Rightarrow> nat \<Rightarrow> nat list" where
  "ends uc (Lit w) s i = (if take (length w) (drop i s) = w then [i + length w] else [])"
| "ends uc (Cls p) s i = (if i < length s \<and> p (s ! i) then [Suc i] else [])"
| "ends uc (Rep p lo hi) s i = map (\<lambda>k. i + k) (filter (below_max hi) [lo ..< Suc (run p s i)])"
| "ends uc WordB s i = (if word_boundary uc s i then [i] else [])"
| "ends uc (Opt r) s i = ends uc r s i @ [i]"
| "ends uc (Seq r1 r2) s i = concat (map (ends uc r2 s) (ends uc r1 s i))"

primrec seqs :: "regex list \<Rightarrow> regex" where
  "seqs [] = Lit []"
| "seqs (r # rs) = Seq r (seqs rs)"

text \<open>The truth value of \<open>re.search(pattern, s)\<close>: a match starts somewhere in \<open>s\<close>.\<close>

definition re_search :: "unicode_db \<Rightarrow> regex \<Rightarrow> str \<Rightarrow> bool" where
  "re_search uc r s = list_ex (\<lambda>i. ends uc r s i \<noteq> []) [0 ..< Suc (length s)]"

section \<open>The analysis of a resume\<close>

text \<open>
  The sentiment analyser (\<open>SentimentIntensityAnalyzer\<close> of NLTK) is a library outside the
  program: \<open>analyze_resume\<close> takes its \<open>polarity_scores\<close> as the parameter \<open>sia\<close>. Its
  scores are floats; they are modelled as reals, and the program only compares the compound
  score with \<open>0.1\<close> and \<open>0\<close>.
\<close>

record polarity =
  compound :: real
  pos :: real
  neg :: real
  neu :: real

text \<open>
  The dictionary \<open>analysis\<close>, one field for each key. The three lists hold title-cased
  entries of the fixed lists, which are ASCII.
\<close>

record analysis =
  word_count :: nat
  char_count :: nat
  sentence_count :: nat
  sentiment :: real
  positive_score :: real
  negative_score :: real
  neutral_score :: real
  found_keywords :: "string list"
  keyword_count :: nat
  found_sections :: "string list"
  has_email :: bool
  has_phone :: bool
  has_linkedin :: bool
  action_verbs :: "string list"

definition skills_keywords :: "string list" where
  "skills_keywords =
    [''python'', ''java'', ''javascript'', ''sql'', ''html'', ''css'', ''react'', ''node'',
     ''machine learning'', ''data analysis'', ''project management'', ''agile'',
     ''communication'', ''leadership'', ''teamwork'', ''problem solving'',
     ''excel'', ''word'', ''powerpoint'', ''management'', ''development'',
     ''programming'', ''coding'', ''design'', ''analysis'', ''research'',
     ''database'', ''api'', ''web'', ''software'', ''technical'', ''cloud'']"

definition sections :: "string list" where
  "sections = [''experience'', ''education'', ''skills'', ''projects'', ''certifications'',
     ''summary'', ''objective'', ''contact'']"

definition action_verbs_list :: "string list" where
  "action_verbs_list = [''managed'', ''developed'', ''created'', ''implemented'', ''led'',
     ''improved'', ''increased'', ''reduced'', ''achieved'', ''built'', ''designed'',
     ''coordinated'']"

text \<open>
  The pattern \<open>\b\<close>\<open>entry\<close>\<open>\b\<close>. The keyword loop passes the entry through \<open>re.escape\<close>, so
  that its letters and spaces match themselves; the section and verb loops insert the entry
  as it is, and their entries are letters only.
\<close>

definition word_pattern :: "string \<Rightarrow> regex" where
  "word_pattern entry = seqs [WordB, Lit (lit entry), WordB]"

text \<open>
  The three loops \<open>for entry in entries: if re.search(..., text.lower()): found.append(entry.title())\<close>;
  \<open>low\<close> is \<open>text.lower()\<close>.
\<close>

primrec find_entries :: "unicode_db \<Rightarrow> str \<Rightarrow> string list \<Rightarrow> string list \<Rightarrow> string list" where
  "find_entries uc low [] found = found"
| "find_entries uc low (entry # entries) found =
     find_entries uc low entries
       (if re_search uc (word_pattern entry) low then found @ [title entry] else found)"

text \<open>\<open>\b[A-Za-z0-9._%+-]+@[A-Za-z0-9.-]+\.[A-Z|a-z]{2,}\b\<close>\<close>

definition email_pattern :: regex where
  "email_pattern = seqs
     [WordB,
      Rep (\<lambda>c. in_range CHR ''A'' CHR ''Z'' c \<or> in_range CHR ''a'' CHR ''z'' c \<or>
                in_range CHR ''0'' CHR ''9'' c \<or> c \<in> set (lit ''._%+-'')) 1 None,
      Lit (lit ''@''),
      Rep (\<lambda>c. in_range CHR ''A'' CHR ''Z'' c \<or> in_range CHR ''a'' CHR ''z'' c \<or>
                in_range CHR ''0'' CHR ''9'' c \<or> c \<in> set (lit ''.-'')) 1 None,
      Lit (lit ''.''),
      Rep (\<lambda>c. in_range CHR ''A'' CHR ''Z'' c \<or> c = ord CHR ''|'' \<or> in_range CHR ''a'' CHR ''z'' c) 2 None,
      WordB]"

text \<open>\<open>(\+?\d{1,3}[-.\s]?)?\(?\d{3}\)?[-.\s]?\d{3}[-.\s]?\d{4}\<close>\<close>

definition phone_sep :: "unicode_db \<Rightarrow> nat \<Rightarrow> bool" where
  "phone_sep uc c = (c = ord CHR ''-'' \<or> c = ord CHR ''.'' \<or> isspace uc c)"

definition phone_pattern :: "unicode_db \<Rightarrow> regex" where
  "phone_pattern uc = seqs
     [Opt (seqs [Opt (Lit (lit ''+'')), Rep (isdigit uc) 1 (Some 3), Opt (Cls (phone_sep uc))]),
      Opt (Lit (lit ''('')), Rep (isdigit uc) 3 (Some 3), Opt (Lit (lit '')'')),
      Opt (Cls (phone_sep uc)), Rep (isdigit uc) 3 (Some 3), Opt (Cls (phone_sep uc)),
      Rep (isdigit uc) 4 (Some 4)]"

text \<open>\<open>linkedin\.com/in/[A-Za-z0-9-]+\<close>\<close>

definition linkedin_pattern :: regex where
  "linkedin_pattern = seqs
     [Lit (lit ''linkedin.com/in/''),
      Rep (\<lambda>c. in_range CHR ''A'' CHR ''Z'' c \<or> in_range CHR ''a'' CHR ''z'' c \<or>
                in_range CHR ''0'' CHR ''9'' c \<or> c = ord CHR ''-'') 1 None]"

definition sentence_end :: "nat \<Rightarrow> bool" where
  "sentence_end c = (c = ord CHR ''.'' \<or> c = ord CHR ''!'' \<or> c = ord CHR ''?'')"

definition analyze_resume :: "unicode_db \<Rightarrow> (str \<Rightarrow> polarity) \<Rightarrow> str \<Rightarrow> analysis" where
  "analyze_resume uc sia text =
    (let words = str_split uc text;
         sentences = re_split sentence_end text;
         sentiment_scores = sia text;
         found_keywords = find_entries uc (lower uc text) skills_keywords [];
         found_sections = find_entries uc (lower uc text) sections [];
         found_verbs = find_entries uc (lower uc text) action_verbs_list []
     in \<lparr> word_count = length words,
          char_count = length text,
          sentence_count = length (filter (\<lambda>s. strip uc s \<noteq> []) sentences),
          sentiment = compound sentiment_scores,
          positive_score = pos sentiment_scores,
          negative_score = neg sentiment_scores,
          neutral_score = neu sentiment_scores,
          found_keywords = found_keywords,
          keyword_count = length found_keywords,
          found_sections = found_sections,
          has_email = re_search uc email_pattern text,
          has_phone = re_search uc (phone_pattern uc) text,
          has_linkedin = re_search uc linkedin_pattern (lower uc text),
          action_verbs = found_verbs \<rparr>)"

section \<open>The overall score\<close>

text \<open>
  The score of the results page: an integer that starts at 0 and is raised factor by
  factor, in the order of the program.
\<close>

definition score :: "analysis \<Rightarrow> int" where
  "score a =
    (let sc = 0;
         sc = (if 400 \<le> word_count a \<and> word_count a \<le> 600 then sc + 20
               else if (300 \<le> word_count a \<and> word_count a < 400) \<or>
                       (600 < word_count a \<and> word_count a \<le> 800) then sc + 15
               else sc + 5);
         sc = sc + min (int (keyword_count a) * 2) 20;
         sc = sc + min (int (length (found_sections a)) * 4) 20;
         contact_score = 0;
         contact_score = (if has_email a then contact_score + 5 else contact_score);
         contact_score = (if has_phone a then contact_score + 5 else contact_score);
         contact_score = (if has_linkedin a then contact_score + 5 else contact_score);
         sc = sc + contact_score;
         sc = sc + min (int (length (action_verbs a)) * 2) 10;
         sc = (if sentiment a > 0.1 then sc + 10
               else if sentiment a > 0 then sc + 5
               else sc)
     in sc)"

text \<open>
  The six factors as the specification's table words them, for the comparison with
  \<open>score\<close>.
\<close>

definition spec_word_score :: "nat \<Rightarrow> int" where
  "spec_word_score wc =
    (if wc \<in> {400..600} then 20 else if wc \<in> {300..399} \<or> wc \<in> {601..800} then 15 else 5)"

definition spec_keyword_score :: "nat \<Rightarrow> int" where
  "spec_keyword_score n = min (2 * int n) 20"

definition spec_section_score :: "nat \<Rightarrow> int" where
  "spec_section_score n = min (4 * int n) 20"

definition spec_contact_score :: "bool \<Rightarrow> bool \<Rightarrow> bool \<Rightarrow> int" where
  "spec_contact_score email phone linkedin =
    (if email then 5 else 0) + (if phone then 5 else 0) + (if linkedin then 5 else 0)"

definition spec_verb_score :: "nat \<Rightarrow> int" where
  "spec_verb_score n = min (2 * int n) 10"

definition spec_sentiment_score :: "real \<Rightarrow> int" where
  "spec_sentiment_score c = (if c > 1 / 10 then 10 else if 0 < c \<and> c \<le> 1 / 10 then 5 else 0)"

section \<open>The recommendations\<close>

text \<open>
  A suggestion is a block of HTML: its \<open>div\<close> class says whether it is positive feedback or
  an improvement, a bold heading follows, then a sentence, for some a list of tips. The
  model keeps the class, the heading (without its pictograph) and the sentence with its
  \<open>{}\<close> filled in; the fixed tips are left out.
\<close>

datatype feedback = Positive | Improvement

record suggestion =
  css_class :: feedback
  heading :: string
  message :: string

definition suggestions :: "analysis \<Rightarrow> suggestion list" where
  "suggestions a =
    (let acc = [];
         acc = (if word_count a < 300 then
                  acc @ [\<lparr>css_class = Improvement, heading = ''Add More Content'',
                     message = ''Your resume is too brief (less than 300 words).''\<rparr>]
                else if word_count a > 800 then
                  acc @ [\<lparr>css_class = Improvement, heading = ''Reduce Length'',
                     message = ''Your resume is too long (over 800 words).''\<rparr>]
                else
                  acc @ [\<lparr>css_class = Positive, heading = ''Good Length'',
                     message = ''Your resume has an appropriate word count. Keep it up!''\<rparr>]);
         acc = (if keyword_count a < 5 then
                  acc @ [\<lparr>css_class = Improvement, heading = ''Add More Keywords'',
                     message = ''Only found '' @ str_nat (keyword_count a) @ '' relevant keywords.''\<rparr>]
                else
                  acc @ [\<lparr>css_class = Positive, heading = ''Good Keyword Usage'',
                     message = ''Found '' @ str_nat (keyword_count a) @ '' relevant keywords. Well done!''\<rparr>]);
         essential_sections = [''Experience'', ''Education'', ''Skills''];
         missing_essential = filter (\<lambda>section. section \<notin> set (found_sections a)) essential_sections;
         acc = (if missing_essential \<noteq> [] then
                  acc @ [\<lparr>css_class = Improvement, heading = ''Add Essential Sections'',
                     message = ''Missing '' @ join '', '' missing_essential @ '' section(s).''\<rparr>]
                else acc);
         contact_missing = [];
         contact_missing = (if \<not> has_email a then contact_missing @ [''email''] else contact_missing);
         contact_missing = (if \<not> has_phone a then contact_missing @ [''phone''] else contact_missing);
         contact_missing = (if \<not> has_linkedin a then contact_missing @ [''LinkedIn''] else contact_missing);
         acc = (if contact_missing \<noteq> [] then
                  acc @ [\<lparr>css_class = Improvement, heading = ''Add Contact Information'',
                     message = ''Missing '' @ join '', '' contact_missing @ ''.''\<rparr>]
                else acc);
         acc = (if length (action_verbs a) < 3 then
                  acc @ [\<lparr>css_class = Improvement, heading = ''Use More Action Verbs'',
                     message = ''Only found '' @ str_nat (length (action_verbs a)) @
                       '' strong action verbs.''\<rparr>]
                else acc)
     in acc)"

text \<open>The five rules one by one, as the specification words them: what each contributes.\<close>

definition spec_length_rule :: "analysis \<Rightarrow> suggestion list" where
  "spec_length_rule a =
    [if word_count a < 300 then
       \<lparr>css_class = Improvement, heading = ''Add More Content'',
        message = ''Your resume is too brief (less than 300 words).''\<rparr>
     else if word_count a > 800 then
       \<lparr>css_class = Improvement, heading = ''Reduce Length'',
        message = ''Your resume is too long (over 800 words).''\<rparr>
     else
       \<lparr>css_class = Positive, heading = ''Good Length'',
        message = ''Your resume has an appropriate word count. Keep it up!''\<rparr>]"

definition spec_keyword_rule :: "analysis \<Rightarrow> suggestion list" where
  "spec_keyword_rule a =
    [if keyword_count a < 5 then
       \<lparr>css_class = Improvement, heading = ''Add More Keywords'',
        message = ''Only found '' @ str_nat (keyword_count a) @ '' relevant keywords.''\<rparr>
     else
       \<lparr>css_class = Positive, heading = ''Good Keyword Usage'',
        message = ''Found '' @ str_nat (keyword_count a) @ '' relevant keywords. Well done!''\<rparr>]"

definition spec_missing_sections :: "analysis \<Rightarrow> string list" where
  "spec_missing_sections a =
    filter (\<lambda>n. n \<notin> set (found_sections a)) [''Experience'', ''Education'', ''Skills'']"

definition spec_sections_rule :: "analysis \<Rightarrow> suggestion list" where
  "spec_sections_rule a =
    (if spec_missing_sections a = [] then []
     else [\<lparr>css_class = Improvement, heading = ''Add Essential Sections'',
             message = ''Missing '' @ join '', '' (spec_missing_sections a) @ '' section(s).''\<rparr>])"

definition spec_missing_contact :: "analysis \<Rightarrow> string list" where
  "spec_missing_contact a =
    (if has_email a then [] else [''email'']) @ (if has_phone a then [] else [''phone'']) @
    (if has_linkedin a then [] else [''LinkedIn''])"

definition spec_contact_rule :: "analysis \<Rightarrow> suggestion list" where
  "spec_contact_rule a =
    (if spec_missing_contact a = [] then []
     else [\<lparr>css_class = Improvement, heading = ''Add Contact Information'',
             message = ''Missing '' @ join '', '' (spec_missing_contact a) @ ''.''\<rparr>])"

definition spec_verbs_rule :: "analysis \<Rightarrow> suggestion list" where
  "spec_verbs_rule a =
    (if length (action_verbs a) < 3 then
       [\<lparr>css_class = Improvement, heading = ''Use More Action Verbs'',
         message = ''Only found '' @ str_nat (length (action_verbs a)) @ '' strong action verbs.''\<rparr>]
     else [])"

section \<open>Text extraction and the upload page\<close>

text \<open>
  The PDF and DOCX readers (\<open>pdfplumber\<close>, \<open>python-docx\<close>) are libraries outside the
  program and are parameters here. Each takes the bytes of the file and either raises, which
  is \<open>Inl\<close> with the text of the exception, or yields the document: for a PDF what
  \<open>extract_text()\<close> returns page by page (\<open>None\<close> or a string), for a DOCX the text of its
  paragraphs.
\<close>

type_synonym bytes = "8 word list"

record uploaded_file =
  name :: str
  type :: str
  content :: bytes

record readers =
  pdf_pages :: "bytes \<Rightarrow> str + str option list"
  docx_paragraphs :: "bytes \<Rightarrow> str + str list"

text \<open>What the page shows: \<open>st.error\<close> and \<open>st.success\<close> (their pictographs left out).\<close>

datatype st_message = St_error str | St_success str

primrec add_pages :: "str \<Rightarrow> str option list \<Rightarrow> str" where
  "add_pages text [] = text"
| "add_pages text (page_text # pages) =
     add_pages (case page_text of
                  None \<Rightarrow> text
                | Some t \<Rightarrow> if t \<noteq> [] then text @ t @ [10] else text) pages"

primrec add_paragraphs :: "unicode_db \<Rightarrow> str \<Rightarrow> str list \<Rightarrow> str" where
  "add_paragraphs uc text [] = text"
| "add_paragraphs uc text (paragraph # paragraphs) =
     add_paragraphs uc
       (if strip uc paragraph \<noteq> [] then text @ paragraph @ [10] else text) paragraphs"

text \<open>
  \<open>extract_text_from_file\<close> returns a string in every case; the second component is what it
  shows on the page. An exception anywhere in the \<open>try\<close> block ends in the handler.
\<close>

definition extract_text_from_file ::
  "unicode_db \<Rightarrow> readers \<Rightarrow> uploaded_file \<Rightarrow> str \<times> st_message list" where
  "extract_text_from_file uc lib uploaded_file =
    (let text = [] in
     if type uploaded_file = lit ''application/pdf'' then
       (case pdf_pages lib (content uploaded_file) of
          Inl e \<Rightarrow> ([], [St_error (lit ''Error reading file: '' @ e)])
        | Inr pages \<Rightarrow> (strip uc (add_pages text pages), []))
     else if type uploaded_file =
          lit ''application/vnd.openxmlformats-officedocument.wordprocessingml.document'' then
       (case docx_paragraphs lib (content uploaded_file) of
          Inl e \<Rightarrow> ([], [St_error (lit ''Error reading file: '' @ e)])
        | Inr paragraphs \<Rightarrow> (strip uc (add_paragraphs uc text paragraphs), []))
     else (strip uc text, []))"

text \<open>The session cache, with the three keys the upload page writes.\<close>

record session_state =
  resume_text :: "str option"
  analysis_results :: "analysis option"
  uploaded_file_name :: "str option"

text \<open>
  The upload page after extraction: \<open>if resume_text and len(resume_text.strip()) > 50\<close>
  analyses and caches, the \<open>else\<close> branch reports and leaves the session as it was.
\<close>

definition upload_gate ::
  "unicode_db \<Rightarrow> (str \<Rightarrow> polarity) \<Rightarrow> str \<Rightarrow> str \<Rightarrow> session_state \<Rightarrow>
     session_state \<times> st_message list" where
  "upload_gate uc sia file_name text st =
    (if text \<noteq> [] \<and> length (strip uc text) > 50 then
       (let results = analyze_resume uc sia text
        in (st\<lparr>resume_text := Some text, analysis_results := Some results,
                uploaded_file_name := Some file_name\<rparr>,
            [St_success (lit ''Resume analyzed successfully!'')]))
     else (st, [St_error (lit
       ''Could not extract sufficient text from the file. Please try a different file.'')]))"

definition upload_resume ::
  "unicode_db \<Rightarrow> readers \<Rightarrow> (str \<Rightarrow> polarity) \<Rightarrow> uploaded_file \<Rightarrow> session_state \<Rightarrow>
     session_state \<times> st_message list" where
  "upload_resume uc lib sia uploaded_file st =
    (let (text, shown) = extract_text_from_file uc lib uploaded_file;
         (st', shown') = upload_gate uc sia (name uploaded_file) text st
     in (st', shown @ shown'))"

section \<open>Concrete inputs\<close>

text \<open>
  A fragment of the Unicode tables for code points from 256 on. It is right for U+0130
  (304, the capital I with a dot above: a letter, and the one code point that
  \<open>str.lower()\<close> turns into two, \<open>i\<close> and U+0307) and for U+0307 (775, the combining dot
  above: no letter, digit or space, and without case). The concrete texts below hold only
  these two and code points below 256.
\<close>

definition unicode_sample :: unicode_db where
  "unicode_sample =
    \<lparr>wide_isspace = (\<lambda>c. False), wide_isalnum = (\<lambda>c. c = 304),
     wide_isdecimal = (\<lambda>c. False),
     wide_lower = (\<lambda>s i. if s ! i = 304 then [105, 775] else [s ! i])\<rparr>"

text \<open>An analyser that finds every text neutral, as the library does for the empty text.\<close>

definition neutral_sia :: "str \<Rightarrow> polarity" where
  "neutral_sia text = \<lparr>compound = 0, pos = 0, neg = 0, neu = 0\<rparr>"

text \<open>Readers that find a document without text, and readers that raise.\<close>

definition blank_readers :: readers where
  "blank_readers = \<lparr>pdf_pages = (\<lambda>b. Inr []), docx_paragraphs = (\<lambda>b. Inr [])\<rparr>"

definition failing_readers :: readers where
  "failing_readers =
    \<lparr>pdf_pages = (\<lambda>b. Inl (lit ''No /Root object! - Is this really a PDF?'')),
     docx_paragraphs = (\<lambda>b. Inl (lit ''File is not a zip file''))\<rparr>"

definition pdf_file :: uploaded_file where
  "pdf_file = \<lparr>name = lit ''cv.pdf'', type = lit ''application/pdf'', content = []\<rparr>"

definition docx_file :: uploaded_file where
  "docx_file = \<lparr>name = lit ''cv.docx'',
     type = lit ''application/vnd.openxmlformats-officedocument.wordprocessingml.document'',
     content = []\<rparr>"

definition txt_file :: uploaded_file where
  "txt_file = \<lparr>name = lit ''cv.txt'', type = lit ''text/plain'', content = []\<rparr>"

definition empty_session :: session_state where
  "empty_session = \<lparr>resume_text = None, analysis_results = None, uploaded_file_name = None\<rparr>"

definition sample_analysis :: analysis where
  "sample_analysis =
    \<lparr>word_count = 450, char_count = 3000, sentence_count = 30, sentiment = 0,
     positive_score = 0, negative_score = 0, neutral_score = 1,
     found_keywords = [''Python'', ''Sql'', ''Leadership'', ''Teamwork'', ''Excel''],
     keyword_count = 5, found_sections = [], has_email = False, has_phone = False,
     has_linkedin = False, action_verbs = []\<rparr>"

section \<open>Whole words and tokens\<close>

text \<open>
  A whole-word occurrence, as the glossary words it: \<open>w\<close> stands in \<open>s\<close> at \<open>i\<close> with no
  word character right before it and none right after it.
\<close>

definition whole_word_at :: "unicode_db \<Rightarrow> str \<Rightarrow> str \<Rightarrow> nat \<Rightarrow> bool" where
  "whole_word_at uc w s i =
     (take (length w) (drop i s) = w \<and> \<not> word_before uc s i \<and>
      \<not> word_after uc s (i + length w))"

definition whole_word :: "unicode_db \<Rightarrow> str \<Rightarrow> str \<Rightarrow> bool" where
  "whole_word uc w s = list_ex (whole_word_at uc w s) [0 ..< Suc (length s)]"

text \<open>
  \<open>w\<close> stands in \<open>s\<close> at \<open>i\<close> and is not part of a larger alphanumeric token there: the
  character before it, if any, is not alphanumeric, and neither is the character after it.
\<close>

definition alnum_before :: "unicode_db \<Rightarrow> str \<Rightarrow> nat \<Rightarrow> bool" where
  "alnum_before uc s i = (0 < i \<and> i \<le> length s \<and> isalnum uc (s ! (i - 1)))"

definition alnum_after :: "unicode_db \<Rightarrow> str \<Rightarrow> nat \<Rightarrow> bool" where
  "alnum_after uc s i = (i < length s \<and> isalnum uc (s ! i))"

definition own_token_at :: "unicode_db \<Rightarrow> str \<Rightarrow> str \<Rightarrow> nat \<Rightarrow> bool" where
  "own_token_at uc w s i =
     (take (length w) (drop i s) = w \<and> \<not> alnum_before uc s i \<and>
      \<not> alnum_after uc s (i + length w))"

definition own_token :: "unicode_db \<Rightarrow> str \<Rightarrow> str \<Rightarrow> bool" where
  "own_token uc w s = list_ex (own_token_at uc w s) [0 ..< Suc (length s)]"

section \<open>The score is the sum of its six factors\<close>

text \<open>
  Claim C1. For every analysis the score is the sum of six sub-scores: the word count gives
  20 in [400,600], 15 in [300,399] or [601,800] and 5 otherwise; the keywords give
  min(2 * keyword_count, 20); the sections min(4 * number of sections, 20); each of email,
  phone and LinkedIn that is present gives 5; the action verbs give min(2 * number of
  verbs, 10); the sentiment gives 10 above 0.1, 5 above 0 and up to 0.1, and 0 otherwise.
\<close>

theorem score_is_sum_of_factors:
  "score a =
     spec_word_score (word_count a) + spec_keyword_score (keyword_count a) +
     spec_section_score (length (found_sections a)) +
     spec_contact_score (has_email a) (has_phone a) (has_linkedin a) +
     spec_verb_score (length (action_verbs a)) + spec_sentiment_score (sentiment a)"
  unfolding score_def Let_def spec_word_score_def spec_keyword_score_def
    spec_section_score_def spec_contact_score_def spec_verb_score_def spec_sentiment_score_def
  by (simp add: mult.commute)

theorem score_is_sum_of_factors_witness:
  "score sample_analysis = 20 + 10 + 0 + 0 + 0 + 0"
  unfolding score_is_sum_of_factors [of sample_analysis]
  by (simp add: sample_analysis_def spec_word_score_def spec_keyword_score_def
      spec_section_score_def spec_contact_score_def spec_verb_score_def spec_sentiment_score_def)

text \<open>
  Claim C2. For every analysis the score lies between 0 and 95, the sum
  20 + 20 + 20 + 15 + 10 + 10 of the largest values of the six factors.
\<close>

theorem score_between_0_and_95:
  "0 \<le> score a \<and> score a \<le> 95 \<and> (95::int) = 20 + 20 + 20 + 15 + 10 + 10"
  unfolding score_def Let_def by (simp add: min_def)

section \<open>Facts about matching\<close>

lemma re_search_iff: "re_search uc r s \<longleftrightarrow> (\<exists>i\<le>length s. ends uc r s i \<noteq> [])"
  by (auto simp: re_search_def list_ex_iff less_Suc_eq_le simp del: upt_Suc)

lemma whole_word_iff: "whole_word uc w s \<longleftrightarrow> (\<exists>i\<le>length s. whole_word_at uc w s i)"
  by (auto simp: whole_word_def list_ex_iff less_Suc_eq_le simp del: upt_Suc)

lemma ends_word_pattern:
  "ends uc (word_pattern e) s i \<noteq> [] \<longleftrightarrow>
     word_boundary uc s i \<and> take (length (lit e)) (drop i s) = lit e \<and>
     word_boundary uc s (i + length (lit e))"
  by (simp add: word_pattern_def)

lemma take_drop_eq_nth:
  assumes "take (length w) (drop i s) = w" "k < length w"
  shows "i + k < length s \<and> s ! (i + k) = w ! k"
proof -
  have "length (take (length w) (drop i s)) = length w" using assms(1) by simp
  then have len: "i + length w \<le> length s" using assms(2) by simp
  have "w ! k = take (length w) (drop i s) ! k" using assms(1) by simp
  also have "\<dots> = s ! (i + k)" using assms(2) len by simp
  finally show ?thesis using len assms(2) by simp
qed

lemma word_pattern_whole_word_at:
  assumes "lit e \<noteq> []" "isword uc (hd (lit e))" "isword uc (last (lit e))"
  shows "ends uc (word_pattern e) s i \<noteq> [] \<longleftrightarrow> whole_word_at uc (lit e) s i"
proof (cases "take (length (lit e)) (drop i s) = lit e")
  case False
  then show ?thesis by (simp add: ends_word_pattern whole_word_at_def)
next
  case True
  let ?w = "lit e"
  have pos: "0 < length ?w" using assms(1) by simp
  from take_drop_eq_nth [OF True pos]
  have a: "word_after uc s i" using assms(1,2) by (simp add: word_after_def hd_conv_nth)
  have k: "length ?w - 1 < length ?w" using pos by simp
  from take_drop_eq_nth [OF True k]
  have lt: "i + (length ?w - 1) < length s" and iw: "isword uc (s ! (i + (length ?w - 1)))"
    using assms(1,3) by (simp_all add: last_conv_nth)
  have e: "i + (length ?w - 1) = i + length ?w - 1" using pos by linarith
  have le: "i + length ?w \<le> length s" using lt pos by linarith
  have b: "word_before uc s (i + length ?w)"
    unfolding word_before_def using pos le iw e by simp
  show ?thesis using True a b by (auto simp: ends_word_pattern whole_word_at_def word_boundary_def)
qed

lemma whole_word_at_split:
  assumes "whole_word_at uc w s i" "i \<le> length s"
  shows "\<exists>pre post. s = pre @ w @ post \<and> (pre = [] \<or> \<not> isalnum uc (last pre)) \<and>
           (post = [] \<or> \<not> isalnum uc (hd post))"
proof -
  let ?pre = "take i s" and ?post = "drop (i + length w) s"
  from assms(1) have t: "take (length w) (drop i s) = w"
    and nb: "\<not> word_before uc s i" and na: "\<not> word_after uc s (i + length w)"
    by (simp_all add: whole_word_at_def)
  have "drop i s = take (length w) (drop i s) @ drop (length w) (drop i s)"
    by (simp only: append_take_drop_id)
  then have "drop i s = w @ ?post" using t by (simp add: add.commute)
  moreover have "s = ?pre @ drop i s" by (simp only: append_take_drop_id)
  ultimately have eq: "s = ?pre @ w @ ?post" by simp
  have p: "?pre = [] \<or> \<not> isalnum uc (last ?pre)"
  proof (cases "i = 0")
    case True then show ?thesis by simp
  next
    case False
    then have ne: "?pre \<noteq> []" and len: "length ?pre = i" using assms(2) by auto
    have "last ?pre = ?pre ! (length ?pre - 1)" using ne by (rule last_conv_nth)
    also have "\<dots> = s ! (i - 1)" using False len by simp
    finally have "last ?pre = s ! (i - 1)" .
    then show ?thesis using nb False assms(2) by (simp add: word_before_def isword_def)
  qed
  have q: "?post = [] \<or> \<not> isalnum uc (hd ?post)"
  proof (cases "i + length w < length s")
    case False then show ?thesis by simp
  next
    case True
    then have "hd ?post = s ! (i + length w)" by (simp add: hd_drop_conv_nth)
    then show ?thesis using na True by (simp add: word_after_def isword_def)
  qed
  from eq p q show ?thesis by blast
qed

lemma entries_shape:
  "\<forall>e\<in>set (skills_keywords @ sections @ action_verbs_list).
     lit e \<noteq> [] \<and> isword uc (hd (lit e)) \<and> isword uc (last (lit e))"
  by code_simp

lemma find_entries_eq:
  "find_entries uc low entries found =
     found @ map title (filter (\<lambda>e. re_search uc (word_pattern e) low) entries)"
  by (induction entries arbitrary: found) auto

lemma found_iff_whole_word:
  assumes d: "distinct (map title entries)"
    and sh: "\<forall>e\<in>set entries. lit e \<noteq> [] \<and> isword uc (hd (lit e)) \<and> isword uc (last (lit e))"
    and m: "entry \<in> set entries"
  shows "title entry \<in> set (find_entries uc low entries []) \<longleftrightarrow> whole_word uc (lit entry) low"
proof -
  have inj: "inj_on title (set entries)" using d by (simp add: distinct_map)
  have "title entry \<in> set (find_entries uc low entries []) \<longleftrightarrow>
        title entry \<in> title ` {e \<in> set entries. re_search uc (word_pattern e) low}"
    by (simp add: find_entries_eq)
  also have "\<dots> \<longleftrightarrow> re_search uc (word_pattern entry) low"
    using inj m by (auto simp: inj_on_def)
  also have "\<dots> \<longleftrightarrow> whole_word uc (lit entry) low"
    using sh m by (simp add: re_search_iff whole_word_iff word_pattern_whole_word_at)
  finally show ?thesis .
qed

lemma mem_Seq: "j \<in> set (ends uc r1 s i) \<Longrightarrow> k \<in> set (ends uc r2 s j) \<Longrightarrow> k \<in> set (ends uc (Seq r1 r2) s i)"
  by auto

lemma mem_Opt_skip: "i \<in> set (ends uc (Opt r) s i)"
  by simp

lemma mem_Rep:
  "lo \<le> k \<Longrightarrow> k \<le> run p s i \<Longrightarrow> below_max hi k \<Longrightarrow> i + k \<in> set (ends uc (Rep p lo hi) s i)"
  by (auto simp del: upt_Suc)

lemma run_ge:
  assumes "i + n \<le> length s" "\<And>j. j < n \<Longrightarrow> p (s ! (i + j))"
  shows "n \<le> run p s i"
  unfolding run_def
  by (rule length_takeWhile_less_P_nth) (use assms in auto)

lemma digits_match_phone:
  assumes len: "i + 10 \<le> length s" and dig: "\<And>j. j < 10 \<Longrightarrow> isdigit uc (s ! (i + j))"
  shows "i + 10 \<in> set (ends uc (phone_pattern uc) s i)"
proof -
  have r0: "3 \<le> run (isdigit uc) s i"
    by (rule run_ge) (use len dig in auto)
  have r3: "3 \<le> run (isdigit uc) s (i + 3)"
  proof (rule run_ge)
    show "i + 3 + 3 \<le> length s" using len by simp
    fix j :: nat assume "j < 3"
    then have "isdigit uc (s ! (i + (3 + j)))" by (intro dig) simp
    then show "isdigit uc (s ! (i + 3 + j))" by (simp add: add.assoc)
  qed
  have r6: "4 \<le> run (isdigit uc) s (i + 6)"
  proof (rule run_ge)
    show "i + 6 + 4 \<le> length s" using len by simp
    fix j :: nat assume "j < 4"
    then have "isdigit uc (s ! (i + (6 + j)))" by (intro dig) simp
    then show "isdigit uc (s ! (i + 6 + j))" by (simp add: add.assoc)
  qed
  have a: "i + 3 \<in> set (ends uc (Rep (isdigit uc) 3 (Some 3)) s i)"
    by (rule mem_Rep) (use r0 in \<open>simp_all add: below_max_def\<close>)
  have b: "i + 6 \<in> set (ends uc (Rep (isdigit uc) 3 (Some 3)) s (i + 3))"
  proof -
    have "i + 3 + 3 \<in> set (ends uc (Rep (isdigit uc) 3 (Some 3)) s (i + 3))"
      by (rule mem_Rep) (use r3 in \<open>simp_all add: below_max_def\<close>)
    moreover have "i + 3 + 3 = i + 6" by simp
    ultimately show ?thesis by (simp only:)
  qed
  have c: "i + 10 \<in> set (ends uc (Rep (isdigit uc) 4 (Some 4)) s (i + 6))"
  proof -
    have "i + 6 + 4 \<in> set (ends uc (Rep (isdigit uc) 4 (Some 4)) s (i + 6))"
      by (rule mem_Rep) (use r6 in \<open>simp_all add: below_max_def\<close>)
    moreover have "i + 6 + 4 = i + 10" by simp
    ultimately show ?thesis by (simp only:)
  qed
  have e: "i + 10 \<in> set (ends uc (Lit []) s (i + 10))" by simp
  show ?thesis
    unfolding phone_pattern_def seqs.simps
    apply (rule mem_Seq [OF mem_Opt_skip])
    apply (rule mem_Seq [OF mem_Opt_skip])
    apply (rule mem_Seq [OF a])
    apply (rule mem_Seq [OF mem_Opt_skip])
    apply (rule mem_Seq [OF mem_Opt_skip])
    apply (rule mem_Seq [OF b])
    apply (rule mem_Seq [OF mem_Opt_skip])
    apply (rule mem_Seq [OF c])
    apply (rule e)
    done
qed

section \<open>Extraction has no error result\<close>

lemma upload_resume_empty:
  assumes "extract_text_from_file uc lib f = ([], shown)"
  shows "upload_resume uc lib sia f st = (st, shown @ [St_error
    (lit ''Could not extract sufficient text from the file. Please try a different file.'')])"
  using assms by (simp add: upload_resume_def upload_gate_def)

lemma add_pages_textless:
  "\<forall>p\<in>set pages. p = None \<or> p = Some [] \<Longrightarrow> add_pages acc pages = acc"
  by (induction pages arbitrary: acc) auto

text \<open>
  Claim C3, as amended. Extraction has no error result. For a declared type that is neither
  PDF nor DOCX it returns the empty string and shows nothing; when the reader of a
  supported type raises, it shows an error message that carries the cause and returns the
  empty string. That is also what it returns for a PDF that was read and has no text on
  any page. From the empty string the upload page reports insufficient text, whatever made
  it empty, and leaves the session as it was.
\<close>

theorem extraction_failure_returns_empty_text:
  "(type f \<noteq> (lit ''application/pdf'') \<and>
    type f \<noteq> (lit ''application/vnd.openxmlformats-officedocument.wordprocessingml.document'') \<longrightarrow>
      extract_text_from_file uc lib f = ([], [])) \<and>
   (type f = (lit ''application/pdf'') \<and> pdf_pages lib (content f) = Inl cause \<longrightarrow>
      extract_text_from_file uc lib f = ([], [St_error ((lit ''Error reading file: '') @ cause)])) \<and>
   (type f = (lit ''application/vnd.openxmlformats-officedocument.wordprocessingml.document'') \<and>
    docx_paragraphs lib (content f) = Inl cause \<longrightarrow>
      extract_text_from_file uc lib f = ([], [St_error ((lit ''Error reading file: '') @ cause)])) \<and>
   (type f = (lit ''application/pdf'') \<and> pdf_pages lib (content f) = Inr pages \<and>
    (\<forall>p\<in>set pages. p = None \<or> p = Some []) \<longrightarrow>
      extract_text_from_file uc lib f = ([], [])) \<and>
   (fst (extract_text_from_file uc lib f) = [] \<longrightarrow>
      upload_resume uc lib sia f st =
        (st, snd (extract_text_from_file uc lib f) @ [St_error
          (lit ''Could not extract sufficient text from the file. Please try a different file.'')]))"
proof (intro conjI impI)
  assume "fst (extract_text_from_file uc lib f) = []"
  then have "extract_text_from_file uc lib f = ([], snd (extract_text_from_file uc lib f))"
    by (metis prod.collapse)
  then show "upload_resume uc lib sia f st =
        (st, snd (extract_text_from_file uc lib f) @ [St_error
          (lit ''Could not extract sufficient text from the file. Please try a different file.'')])"
    by (rule upload_resume_empty)
qed (simp_all add: extract_text_from_file_def strip_def lit_def add_pages_textless)

theorem extraction_failure_returns_empty_text_witness:
  "extract_text_from_file unicode_sample failing_readers txt_file = ([], []) \<and>
   extract_text_from_file unicode_sample failing_readers pdf_file =
     ([], [St_error (lit ''Error reading file: No /Root object! - Is this really a PDF?'')]) \<and>
   extract_text_from_file unicode_sample failing_readers docx_file =
     ([], [St_error (lit ''Error reading file: File is not a zip file'')]) \<and>
   extract_text_from_file unicode_sample blank_readers pdf_file = ([], []) \<and>
   upload_resume unicode_sample failing_readers neutral_sia pdf_file empty_session =
     (empty_session,
      [St_error (lit ''Error reading file: No /Root object! - Is this really a PDF?''),
       St_error (lit ''Could not extract sufficient text from the file. Please try a different file.'')])"
proof -
  have t: "type txt_file \<noteq> (lit ''application/pdf'') \<and>
    type txt_file \<noteq> (lit ''application/vnd.openxmlformats-officedocument.wordprocessingml.document'')"
    by (simp add: txt_file_def lit_def ord_def)
  have p: "type pdf_file = (lit ''application/pdf'') \<and>
    pdf_pages failing_readers (content pdf_file) = Inl (lit ''No /Root object! - Is this really a PDF?'')"
    by (simp add: pdf_file_def failing_readers_def)
  have d: "type docx_file = (lit ''application/vnd.openxmlformats-officedocument.wordprocessingml.document'') \<and>
    docx_paragraphs failing_readers (content docx_file) = Inl (lit ''File is not a zip file'')"
    by (simp add: docx_file_def failing_readers_def)
  have e: "type pdf_file = (lit ''application/pdf'') \<and>
    pdf_pages blank_readers (content pdf_file) = Inr [] \<and>
    (\<forall>p\<in>set []. p = None \<or> p = Some ([]::str))"
    by (simp add: pdf_file_def blank_readers_def)
  note a = extraction_failure_returns_empty_text [where f = txt_file and uc = unicode_sample
      and lib = failing_readers and cause = "[]" and sia = neutral_sia and st = empty_session]
  note g = extraction_failure_returns_empty_text [where f = pdf_file and uc = unicode_sample
      and lib = blank_readers and pages = "[]" and sia = neutral_sia and st = empty_session]
  note b = extraction_failure_returns_empty_text [where f = pdf_file and uc = unicode_sample
      and lib = failing_readers and cause = "lit ''No /Root object! - Is this really a PDF?''"
      and sia = neutral_sia and st = empty_session]
  note c = extraction_failure_returns_empty_text [where f = docx_file and uc = unicode_sample
      and lib = failing_readers and cause = "lit ''File is not a zip file''"
      and sia = neutral_sia and st = empty_session]
  from a t have 1: "extract_text_from_file unicode_sample failing_readers txt_file = ([], [])" by blast
  from b p have 2: "extract_text_from_file unicode_sample failing_readers pdf_file =
     ([], [St_error ((lit ''Error reading file: '') @ (lit ''No /Root object! - Is this really a PDF?''))])" by blast
  from c d have 3: "extract_text_from_file unicode_sample failing_readers docx_file =
     ([], [St_error ((lit ''Error reading file: '') @ (lit ''File is not a zip file''))])" by blast
  from b 2 have 4: "upload_resume unicode_sample failing_readers neutral_sia pdf_file empty_session =
        (empty_session, snd (extract_text_from_file unicode_sample failing_readers pdf_file) @ [St_error
          (lit ''Could not extract sufficient text from the file. Please try a different file.'')])"
    by simp
  from g e have 5: "extract_text_from_file unicode_sample blank_readers pdf_file = ([], [])"
    by blast
  show ?thesis using 1 2 3 4 5 by (simp add: lit_def)
qed

text \<open>
  As the claim was stated, an unsupported type and unparseable content give an error result
  that differs from extracted text. They do not: the result for a text file is the result
  for a PDF that was read and has no pages, and a reader that raises gives the same string.
\<close>

theorem extraction_error_counterexample:
  "extract_text_from_file unicode_sample blank_readers txt_file = extract_text_from_file unicode_sample blank_readers pdf_file \<and>
   extract_text_from_file unicode_sample blank_readers txt_file = ([], []) \<and>
   fst (extract_text_from_file unicode_sample failing_readers pdf_file) =
     fst (extract_text_from_file unicode_sample blank_readers pdf_file)"
  by (simp add: extract_text_from_file_def blank_readers_def failing_readers_def txt_file_def
      pdf_file_def strip_def lit_def)

section \<open>The gate of the upload page\<close>

text \<open>
  Claim C4, as amended. The upload page analyses and caches exactly when the stripped text
  has more than 50 characters; with 50 characters or fewer it reports insufficient text and
  leaves the session as it was.
\<close>

theorem upload_gate_threshold:
  "(50 < length (strip uc text) \<longrightarrow>
      upload_gate uc sia file_name text st =
        (st\<lparr>resume_text := Some text, analysis_results := Some (analyze_resume uc sia text),
            uploaded_file_name := Some file_name\<rparr>,
         [St_success (lit ''Resume analyzed successfully!'')])) \<and>
   (length (strip uc text) \<le> 50 \<longrightarrow>
      upload_gate uc sia file_name text st =
        (st, [St_error
          (lit ''Could not extract sufficient text from the file. Please try a different file.'')]))"
proof -
  have "text \<noteq> []" if "50 < length (strip uc text)"
    using that by (auto simp: strip_def)
  then show ?thesis by (auto simp: upload_gate_def Let_def)
qed

theorem upload_gate_threshold_witness:
  "upload_gate unicode_sample neutral_sia (lit ''cv.pdf'') (replicate 51 (ord CHR ''a'')) empty_session =
     (empty_session\<lparr>resume_text := Some (replicate 51 (ord CHR ''a'')),
        analysis_results := Some (analyze_resume unicode_sample neutral_sia (replicate 51 (ord CHR ''a''))),
        uploaded_file_name := Some (lit ''cv.pdf'')\<rparr>,
      [St_success (lit ''Resume analyzed successfully!'')]) \<and>
   upload_gate unicode_sample neutral_sia (lit ''cv.pdf'') (replicate 49 (ord CHR ''a'')) empty_session =
     (empty_session, [St_error
       (lit ''Could not extract sufficient text from the file. Please try a different file.'')])"
proof -
  have a: "strip unicode_sample (replicate 51 (ord CHR ''a'')) = replicate 51 (ord CHR ''a'')" by code_simp
  have b: "strip unicode_sample (replicate 49 (ord CHR ''a'')) = replicate 49 (ord CHR ''a'')" by code_simp
  have 1: "50 < length (strip unicode_sample (replicate 51 (ord CHR ''a'')))" unfolding a by simp
  have 2: "length (strip unicode_sample (replicate 49 (ord CHR ''a''))) \<le> 50" unfolding b by simp
  from upload_gate_threshold [of unicode_sample "replicate 51 (ord CHR ''a'')" neutral_sia
      "lit ''cv.pdf''" empty_session] 1
    upload_gate_threshold [of unicode_sample "replicate 49 (ord CHR ''a'')" neutral_sia
      "lit ''cv.pdf''" empty_session] 2
  show ?thesis by blast
qed

text \<open>
  A text of exactly 50 characters has at least 50 characters, and is not analysed.
\<close>

theorem gate_at_50_counterexample:
  "length (strip unicode_sample (replicate 50 (ord CHR ''a''))) = 50 \<and>
   upload_gate unicode_sample neutral_sia (lit ''cv.pdf'') (replicate 50 (ord CHR ''a'')) empty_session =
     (empty_session, [St_error
       (lit ''Could not extract sufficient text from the file. Please try a different file.'')])"
proof -
  have "strip unicode_sample (replicate 50 (ord CHR ''a'')) = replicate 50 (ord CHR ''a'')" by code_simp
  then show ?thesis by (simp add: upload_gate_def)
qed

section \<open>The found keywords, sections and verbs\<close>

lemma titles_distinct:
  "distinct (map title skills_keywords)" "distinct (map title sections)"
  "distinct (map title action_verbs_list)"
  by code_simp+

text \<open>
  Claim C5. For every text, the found keywords, the found sections and the action verbs
  have no duplicates and are sub-sequences of the title-cased fixed lists (32 keywords, 8
  sections, 12 verbs): they hold title-cased entries of these lists only, in the lists'
  order.
\<close>

theorem found_lists_distinct_ordered:
  "distinct (found_keywords (analyze_resume uc sia text)) \<and>
   subseq (found_keywords (analyze_resume uc sia text)) (map title skills_keywords) \<and>
   distinct (found_sections (analyze_resume uc sia text)) \<and>
   subseq (found_sections (analyze_resume uc sia text)) (map title sections) \<and>
   distinct (action_verbs (analyze_resume uc sia text)) \<and>
   subseq (action_verbs (analyze_resume uc sia text)) (map title action_verbs_list) \<and>
   length skills_keywords = 32 \<and> length sections = 8 \<and> length action_verbs_list = 12"
proof -
  have sub: "subseq (find_entries uc low es []) (map title es)" for low es
    by (simp add: find_entries_eq subseq_map)
  have dist: "distinct (find_entries uc low es [])" if "distinct (map title es)" for low es
    using that by (simp add: find_entries_eq distinct_map_filter)
  have len: "length skills_keywords = 32 \<and> length sections = 8 \<and> length action_verbs_list = 12"
    by (simp add: skills_keywords_def sections_def action_verbs_list_def)
  show ?thesis
    using len by (simp add: analyze_resume_def Let_def sub dist titles_distinct)
qed

section \<open>The recommendations follow five rules in order\<close>

text \<open>
  Claim C6. The suggestions are the outputs of the length, keyword, section, contact and
  verb rules, in this order. The length rule and the keyword rule give one item each, an
  improvement when the word count is below 300 or above 800, respectively when fewer than 5
  keywords were found, and positive feedback otherwise. The section, contact and verb rules
  give one improvement when an essential section is missing, a contact item is missing, or
  fewer than 3 verbs were found, and nothing otherwise. The keyword and verb messages hold
  the decimal digits of \<open>keyword_count\<close> and of the number of action verbs.
\<close>

theorem suggestions_follow_rules:
  "suggestions a =
     spec_length_rule a @ spec_keyword_rule a @ spec_sections_rule a @ spec_contact_rule a @
     spec_verbs_rule a \<and>
   map css_class (spec_length_rule a) =
     [if word_count a < 300 \<or> word_count a > 800 then Improvement else Positive] \<and>
   map css_class (spec_keyword_rule a) =
     [if keyword_count a < 5 then Improvement else Positive] \<and>
   map css_class (spec_sections_rule a) =
     (if {''Experience'', ''Education'', ''Skills''} \<subseteq> set (found_sections a) then []
      else [Improvement]) \<and>
   map css_class (spec_contact_rule a) =
     (if has_email a \<and> has_phone a \<and> has_linkedin a then [] else [Improvement]) \<and>
   map css_class (spec_verbs_rule a) =
     (if length (action_verbs a) < 3 then [Improvement] else []) \<and>
   map message (spec_keyword_rule a) =
     [if keyword_count a < 5
      then ''Only found '' @ str_nat (keyword_count a) @ '' relevant keywords.''
      else ''Found '' @ str_nat (keyword_count a) @ '' relevant keywords. Well done!''] \<and>
   map message (spec_verbs_rule a) =
     (if length (action_verbs a) < 3
      then [''Only found '' @ str_nat (length (action_verbs a)) @ '' strong action verbs.'']
      else [])"
proof (intro conjI)
  show "suggestions a =
     spec_length_rule a @ spec_keyword_rule a @ spec_sections_rule a @ spec_contact_rule a @
     spec_verbs_rule a"
    unfolding suggestions_def Let_def spec_length_rule_def spec_keyword_rule_def
      spec_sections_rule_def spec_contact_rule_def spec_verbs_rule_def
      spec_missing_sections_def spec_missing_contact_def
    by simp
qed (simp_all add: spec_length_rule_def spec_keyword_rule_def
      spec_sections_rule_def spec_contact_rule_def spec_verbs_rule_def
      spec_missing_sections_def spec_missing_contact_def)

theorem suggestions_follow_rules_witness:
  "suggestions sample_analysis =
    [\<lparr>css_class = Positive, heading = ''Good Length'',
       message = ''Your resume has an appropriate word count. Keep it up!''\<rparr>,
     \<lparr>css_class = Positive, heading = ''Good Keyword Usage'',
       message = ''Found 5 relevant keywords. Well done!''\<rparr>,
     \<lparr>css_class = Improvement, heading = ''Add Essential Sections'',
       message = ''Missing Experience, Education, Skills section(s).''\<rparr>,
     \<lparr>css_class = Improvement, heading = ''Add Contact Information'',
       message = ''Missing email, phone, LinkedIn.''\<rparr>,
     \<lparr>css_class = Improvement, heading = ''Use More Action Verbs'',
       message = ''Only found 0 strong action verbs.''\<rparr>]"
proof -
  have n: "str_nat 5 = ''5''" "str_nat 0 = ''0''" by code_simp+
  have "suggestions sample_analysis =
     spec_length_rule sample_analysis @ spec_keyword_rule sample_analysis @
     spec_sections_rule sample_analysis @ spec_contact_rule sample_analysis @
     spec_verbs_rule sample_analysis"
    using suggestions_follow_rules [of sample_analysis] by blast
  then show ?thesis
    by (simp add: spec_length_rule_def spec_keyword_rule_def
      spec_sections_rule_def spec_contact_rule_def spec_verbs_rule_def
      spec_missing_sections_def spec_missing_contact_def sample_analysis_def n)
qed

section \<open>The empty text\<close>

text \<open>
  Claim C8. \<open>analyze_resume\<close> and \<open>score\<close> have a value for every string: no operation
  of theirs raises on a string, and the model has no error branch. For the empty text,
  provided the sentiment analyser finds it neutral (compound 0), all counts are 0, the
  three lists are empty, no contact item is found, and the score is exactly 5.
\<close>

theorem empty_text_analysis:
  assumes "compound (sia []) = 0"
  shows "analyze_resume uc sia [] =
      \<lparr>word_count = 0, char_count = 0, sentence_count = 0, sentiment = 0,
       positive_score = pos (sia []), negative_score = neg (sia []),
       neutral_score = neu (sia []), found_keywords = [], keyword_count = 0,
       found_sections = [], has_email = False, has_phone = False, has_linkedin = False,
       action_verbs = []\<rparr> \<and>
     score (analyze_resume uc sia []) = 5"
proof -
  have "analyze_resume uc sia [] =
      \<lparr>word_count = 0, char_count = 0, sentence_count = 0, sentiment = compound (sia []),
       positive_score = pos (sia []), negative_score = neg (sia []),
       neutral_score = neu (sia []), found_keywords = [], keyword_count = 0,
       found_sections = [], has_email = False, has_phone = False, has_linkedin = False,
       action_verbs = []\<rparr>"
    by code_simp
  then show ?thesis using assms by (simp add: score_def)
qed

theorem empty_text_analysis_witness:
  "compound (neutral_sia []) = 0 \<and> score (analyze_resume unicode_sample neutral_sia []) = 5 \<and>
   word_count (analyze_resume unicode_sample neutral_sia []) = 0"
proof -
  have c: "compound (neutral_sia []) = 0" by (simp add: neutral_sia_def)
  note r = empty_text_analysis [where sia = neutral_sia and uc = unicode_sample, OF c]
  from r have s: "score (analyze_resume unicode_sample neutral_sia []) = 5" by (rule conjunct2)
  have w: "word_count (analyze_resume unicode_sample neutral_sia []) = 0" using conjunct1 [OF r] by simp
  show ?thesis using c s w by blast
qed

section \<open>The word count under concatenation\<close>

lemma split_from_space:
  "isspace uc c \<Longrightarrow>
   length (split_from uc cur (a @ c # b)) = length (split_from uc cur a) + length (split_from uc [] b)"
  by (induction a arbitrary: cur) auto

text \<open>
  Claim C9. For all strings \<open>a\<close> and \<open>b\<close>, the word count of \<open>a + " " + b\<close> is at least
  the word count of \<open>a\<close>; it is the sum of the two word counts.
\<close>

theorem word_count_monotone:
  "word_count (analyze_resume uc sia a) \<le> word_count (analyze_resume uc sia (a @ lit '' '' @ b)) \<and>
   word_count (analyze_resume uc sia (a @ lit '' '' @ b)) =
     word_count (analyze_resume uc sia a) + word_count (analyze_resume uc sia b)"
proof -
  have "isspace uc (ord CHR '' '')" by code_simp
  then show ?thesis
    by (simp add: analyze_resume_def Let_def str_split_def split_from_space lit_def)
qed

section \<open>The phone pattern has no anchors\<close>

text \<open>
  Claim C10. A text that contains ten or more consecutive digits anywhere, also inside a
  longer number and with no separators, has \<open>has_phone\<close> true: the pattern is searched
  without boundaries and all its groups other than the digits are optional.
\<close>

theorem ten_digits_make_a_phone:
  assumes "text = before @ ds @ after" "10 \<le> length ds" "\<forall>c\<in>set ds. isdigit uc c"
  shows "has_phone (analyze_resume uc sia text)"
proof -
  let ?i = "length before"
  have len: "?i + 10 \<le> length text" using assms(1,2) by simp
  have dig: "isdigit uc (text ! (?i + j))" if "j < 10" for j
  proof -
    have "j < length ds" using that assms(2) by simp
    then have "text ! (?i + j) = ds ! j" "ds ! j \<in> set ds"
      using assms(1) by (simp_all add: nth_append)
    then show ?thesis using assms(3) by simp
  qed
  have "?i + 10 \<in> set (ends uc (phone_pattern uc) text ?i)"
    by (rule digits_match_phone [OF len dig])
  then have "ends uc (phone_pattern uc) text ?i \<noteq> []" by auto
  moreover have "?i \<le> length text" using assms(1) by simp
  ultimately have "re_search uc (phone_pattern uc) text" unfolding re_search_iff by blast
  then show ?thesis by (simp add: analyze_resume_def Let_def)
qed

theorem ten_digits_make_a_phone_witness:
  "has_phone (analyze_resume unicode_sample neutral_sia (lit ''card 1234567812345678 on file''))"
proof -
  have 1: "lit ''card 1234567812345678 on file'' =
      lit ''card '' @ lit ''1234567812345678'' @ lit '' on file''"
    by (simp add: lit_def)
  have 2: "10 \<le> length (lit ''1234567812345678'')" by (simp add: lit_def)
  have 3: "\<forall>c\<in>set (lit ''1234567812345678''). isdigit unicode_sample c" by code_simp
  show ?thesis by (rule ten_digits_make_a_phone [OF 1 2 3])
qed

section \<open>Keywords, sections and verbs match as whole words of the lowered text\<close>

lemma title_java: "title ''java'' = ''Java''" "title ''javascript'' = ''Javascript''"
  by code_simp+

lemma entry_found_iff:
  "entry \<in> set skills_keywords \<Longrightarrow>
     title entry \<in> set (found_keywords (analyze_resume uc sia text)) \<longleftrightarrow>
     whole_word uc (lit entry) (lower uc text)"
  "entry \<in> set sections \<Longrightarrow>
     title entry \<in> set (found_sections (analyze_resume uc sia text)) \<longleftrightarrow>
     whole_word uc (lit entry) (lower uc text)"
  "entry \<in> set action_verbs_list \<Longrightarrow>
     title entry \<in> set (action_verbs (analyze_resume uc sia text)) \<longleftrightarrow>
     whole_word uc (lit entry) (lower uc text)"
proof -
  have sh: "\<forall>e\<in>set skills_keywords. lit e \<noteq> [] \<and> isword uc (hd (lit e)) \<and> isword uc (last (lit e))"
    "\<forall>e\<in>set sections. lit e \<noteq> [] \<and> isword uc (hd (lit e)) \<and> isword uc (last (lit e))"
    "\<forall>e\<in>set action_verbs_list. lit e \<noteq> [] \<and> isword uc (hd (lit e)) \<and> isword uc (last (lit e))"
    using entries_shape [of uc] by simp_all
  show "title entry \<in> set (found_keywords (analyze_resume uc sia text)) \<longleftrightarrow>
     whole_word uc (lit entry) (lower uc text)" if "entry \<in> set skills_keywords"
    using found_iff_whole_word [OF titles_distinct(1) sh(1) that]
    by (simp add: analyze_resume_def Let_def)
  show "title entry \<in> set (found_sections (analyze_resume uc sia text)) \<longleftrightarrow>
     whole_word uc (lit entry) (lower uc text)" if "entry \<in> set sections"
    using found_iff_whole_word [OF titles_distinct(2) sh(2) that]
    by (simp add: analyze_resume_def Let_def)
  show "title entry \<in> set (action_verbs (analyze_resume uc sia text)) \<longleftrightarrow>
     whole_word uc (lit entry) (lower uc text)" if "entry \<in> set action_verbs_list"
    using found_iff_whole_word [OF titles_distinct(3) sh(3) that]
    by (simp add: analyze_resume_def Let_def)
qed

lemma whole_word_own_token: "whole_word uc w s \<Longrightarrow> own_token uc w s"
  unfolding whole_word_def own_token_def list_ex_iff
  by (auto simp: whole_word_at_def own_token_at_def word_before_def word_after_def
      alnum_before_def alnum_after_def isword_def simp del: upt_Suc)

text \<open>
  Claim C7, as amended. Matching is by whole words of the lowered text \<open>text.lower()\<close>.
  For every text, an entry of the keyword, section or verb list is found exactly when it
  stands in the lowered text with no word character right before or after it, so only
  when it is not part of a larger alphanumeric token of the lowered text. In particular a
  text whose lowered form has the token \<open>javascript\<close> and no standalone \<open>java\<close> yields
  \<open>Javascript\<close> and not \<open>Java\<close>, and one whose lowered form has a standalone \<open>java\<close>
  yields \<open>Java\<close>.
\<close>

theorem whole_word_matching:
  "(entry \<in> set skills_keywords \<longrightarrow>
      (title entry \<in> set (found_keywords (analyze_resume uc sia text)) \<longleftrightarrow>
       whole_word uc (lit entry) (lower uc text))) \<and>
   (entry \<in> set sections \<longrightarrow>
      (title entry \<in> set (found_sections (analyze_resume uc sia text)) \<longleftrightarrow>
       whole_word uc (lit entry) (lower uc text))) \<and>
   (entry \<in> set action_verbs_list \<longrightarrow>
      (title entry \<in> set (action_verbs (analyze_resume uc sia text)) \<longleftrightarrow>
       whole_word uc (lit entry) (lower uc text))) \<and>
   (whole_word uc (lit entry) (lower uc text) \<longrightarrow>
      own_token uc (lit entry) (lower uc text) \<and>
      (\<exists>pre post. lower uc text = pre @ lit entry @ post \<and>
         (pre = [] \<or> \<not> isalnum uc (last pre)) \<and> (post = [] \<or> \<not> isalnum uc (hd post)))) \<and>
   (whole_word uc (lit ''javascript'') (lower uc text) \<and>
    \<not> whole_word uc (lit ''java'') (lower uc text) \<longrightarrow>
      ''Javascript'' \<in> set (found_keywords (analyze_resume uc sia text)) \<and>
      ''Java'' \<notin> set (found_keywords (analyze_resume uc sia text))) \<and>
   (whole_word uc (lit ''java'') (lower uc text) \<longrightarrow>
      ''Java'' \<in> set (found_keywords (analyze_resume uc sia text)))"
proof -
  note k = entry_found_iff(1) [of _ uc sia "text"]
  have w: "\<exists>pre post. lower uc text = pre @ lit entry @ post \<and>
         (pre = [] \<or> \<not> isalnum uc (last pre)) \<and> (post = [] \<or> \<not> isalnum uc (hd post))"
    if "whole_word uc (lit entry) (lower uc text)"
    using that whole_word_at_split unfolding whole_word_iff by blast
  have m: "''java'' \<in> set skills_keywords" "''javascript'' \<in> set skills_keywords"
    by (simp_all add: skills_keywords_def)
  have j: "''Java'' \<in> set (found_keywords (analyze_resume uc sia text)) \<longleftrightarrow>
      whole_word uc (lit ''java'') (lower uc text)"
    using k [OF m(1)] by (simp only: title_java)
  have js: "''Javascript'' \<in> set (found_keywords (analyze_resume uc sia text)) \<longleftrightarrow>
      whole_word uc (lit ''javascript'') (lower uc text)"
    using k [OF m(2)] by (simp only: title_java)
  show ?thesis
    using entry_found_iff [of entry uc sia "text"] w j js whole_word_own_token by blast
qed

theorem whole_word_matching_witness:
  "''Javascript'' \<in> set (found_keywords (analyze_resume unicode_sample neutral_sia (lit ''JavaScript''))) \<and>
   ''Java'' \<notin> set (found_keywords (analyze_resume unicode_sample neutral_sia (lit ''JavaScript''))) \<and>
   ''Java'' \<in> set (found_keywords (analyze_resume unicode_sample neutral_sia (lit ''Java 8''))) \<and>
   ''Skills'' \<in> set (found_sections (analyze_resume unicode_sample neutral_sia (lit ''SKILLS''))) \<and>
   ''Led'' \<notin> set (action_verbs (analyze_resume unicode_sample neutral_sia (lit ''Misled'')))"
proof -
  have l: "lower unicode_sample (lit ''JavaScript'') = lit ''javascript''"
    "lower unicode_sample (lit ''Java 8'') = lit ''java 8''"
    "lower unicode_sample (lit ''SKILLS'') = lit ''skills''"
    "lower unicode_sample (lit ''Misled'') = lit ''misled''"
    by code_simp+
  have t: "title ''skills'' = ''Skills''" "title ''led'' = ''Led''" by code_simp+
  have e: "whole_word unicode_sample (lit ''javascript'') (lit ''javascript'')"
    "\<not> whole_word unicode_sample (lit ''java'') (lit ''javascript'')"
    "whole_word unicode_sample (lit ''java'') (lit ''java 8'')"
    "whole_word unicode_sample (lit ''skills'') (lit ''skills'')"
    "\<not> whole_word unicode_sample (lit ''led'') (lit ''misled'')"
    by code_simp+
  have m: "''skills'' \<in> set sections" "''led'' \<in> set action_verbs_list"
    by (simp_all add: sections_def action_verbs_list_def)
  note a = whole_word_matching [of "''java''" unicode_sample neutral_sia "lit ''JavaScript''", unfolded l]
  note b = whole_word_matching [of "''java''" unicode_sample neutral_sia "lit ''Java 8''", unfolded l]
  note c = whole_word_matching [of "''skills''" unicode_sample neutral_sia "lit ''SKILLS''", unfolded l t]
  note d = whole_word_matching [of "''led''" unicode_sample neutral_sia "lit ''Misled''", unfolded l t]
  from a e have 1: "''Javascript'' \<in> set (found_keywords (analyze_resume unicode_sample neutral_sia (lit ''JavaScript''))) \<and>
   ''Java'' \<notin> set (found_keywords (analyze_resume unicode_sample neutral_sia (lit ''JavaScript'')))" by blast
  from b e have 2: "''Java'' \<in> set (found_keywords (analyze_resume unicode_sample neutral_sia (lit ''Java 8'')))" by blast
  from c e m have 3: "''Skills'' \<in> set (found_sections (analyze_resume unicode_sample neutral_sia (lit ''SKILLS'')))" by blast
  from d e m have 4: "''Led'' \<notin> set (action_verbs (analyze_resume unicode_sample neutral_sia (lit ''Misled'')))" by blast
  from 1 2 3 4 show ?thesis by blast
qed

text \<open>
  As the claim was stated, of the input text, it fails where lowering changes the
  characters. In the text of U+0130 followed by \<open>java\<close> the keyword is glued to a letter,
  so it is part of a larger alphanumeric token and nowhere a token of its own; lowering
  turns the letter into \<open>i\<close> and the combining dot U+0307, which is no word character, and
  \<open>Java\<close> is found.
\<close>

theorem glued_keyword_counterexample:
  "''Java'' \<in> set (found_keywords (analyze_resume unicode_sample neutral_sia (304 # lit ''java''))) \<and>
   isalnum unicode_sample 304 \<and>
   \<not> own_token unicode_sample (lit ''java'') (304 # lit ''java'') \<and>
   lower unicode_sample (304 # lit ''java'') = [105, 775] @ lit ''java''"
proof -
  have m: "''java'' \<in> set skills_keywords" by (simp add: skills_keywords_def)
  have l: "lower unicode_sample (304 # lit ''java'') = [105, 775] @ lit ''java''" by code_simp
  have w: "whole_word unicode_sample (lit ''java'') ([105, 775] @ lit ''java'')" by code_simp
  have "''Java'' \<in> set (found_keywords (analyze_resume unicode_sample neutral_sia (304 # lit ''java'')))"
    using entry_found_iff(1) [OF m, of unicode_sample neutral_sia "304 # lit ''java''"] w
    by (simp only: l title_java)
  moreover have "isalnum unicode_sample 304" by code_simp
  moreover have "\<not> own_token unicode_sample (lit ''java'') (304 # lit ''java'')" by code_simp
  ultimately show ?thesis using l by blast
qed

end
